theory Spec2Isabelle
  imports Complex_Main
begin

section \<open>Order checkout, cancellation and status update of the resin-art store\<close>

text \<open>
  The order controller (\<^verbatim>\<open>createOrder\<close>, \<^verbatim>\<open>cancelOrder\<close>, \<^verbatim>\<open>updateOrderStatus\<close>,
  \<^verbatim>\<open>generateOrderNumber\<close>) and the cart helper \<^verbatim>\<open>getOrCreateCart\<close> are request handlers
  over a relational database reached through an ORM client. The embedding makes the
  database an explicit record of tables (lists of rows, in insertion order) that every
  handler takes and returns, and makes every \<^verbatim>\<open>throw\<close> a value of the type \<open>error\<close>.

  What is modelled of the database engine is what the handlers can observe: lookups,
  inserts, updates and deletes of the tables the handlers touch, the unique indexes of the
  migration (\<^verbatim>\<open>orders_order_number_key\<close>, \<^verbatim>\<open>deliveries_order_id_key\<close>,
  \<^verbatim>\<open>deliveries_tracking_number_key\<close>), the "record not found" failure of an update or
  delete, and the rollback of an interactive transaction. Column widths, the precision of
  \<^verbatim>\<open>DECIMAL(10,2)\<close>, the machine range of \<^verbatim>\<open>INTEGER\<close> and the rounding of JavaScript
  numbers are not modelled: amounts of money are exact rationals and counters are
  unbounded integers. The confirmation e-mails sent after a committed transaction are
  wrapped in \<^verbatim>\<open>try/catch\<close> by the handlers, write nothing to the database and are left out.
  Handlers run one at a time; concurrent requests are outside the model.
\<close>

subsection \<open>Rows of the tables\<close>

text \<open>
  Field names follow the ORM's (\<^verbatim>\<open>product.discountPrice\<close> is \<open>prod_discountPrice\<close>); the
  prefix keeps the fields of different tables apart. A nullable column is an \<open>option\<close>.
  Timestamps are milliseconds since the epoch. The enumerated columns (\<^verbatim>\<open>orders.status\<close>,
  \<^verbatim>\<open>users.role\<close>, \<^verbatim>\<open>deliveries.status\<close>) are the strings the JavaScript code compares
  them with.
\<close>

type_synonym money = rat

record product =
  prod_id :: int
  prod_name :: string
  prod_price :: money
  prod_discountPrice :: "money option"
  prod_stock :: int
  prod_images :: "string list option"
  prod_isActive :: bool

record cart =
  cart_id :: int
  cart_userId :: int
  cart_isActive :: bool

record cart_item =
  ci_cartId :: int
  ci_productId :: int
  ci_quantity :: int
  ci_customization :: "string option"
  ci_priceAtTime :: money

text \<open>
  \<open>order_line\<close> is the object the checkout loop pushes onto \<^verbatim>\<open>orderItems\<close>; a row of
  the table \<^verbatim>\<open>order_items\<close> is such an object together with the id of its order.
\<close>

record order_line =
  ol_productId :: int
  ol_quantity :: int
  ol_unitPrice :: money
  ol_totalPrice :: money
  ol_productName :: string
  ol_productImage :: "string option"
  ol_customization :: "string option"

record order_item =
  oi_orderId :: int
  oi_line :: order_line

record order =
  ord_id :: int
  ord_orderNumber :: string
  ord_userId :: int
  ord_status :: string
  ord_subtotal :: money
  ord_shippingCost :: money
  ord_taxAmount :: money
  ord_totalAmount :: money
  ord_shippingAddress :: string
  ord_shippingPhone :: string
  ord_notes :: "string option"
  ord_createdAt :: int
  ord_confirmedAt :: "int option"
  ord_shippedAt :: "int option"
  ord_deliveredAt :: "int option"
  ord_cancelledAt :: "int option"
  ord_cancelReason :: "string option"

record order_tracking =
  ot_orderId :: int
  ot_status :: string
  ot_description :: string
  ot_updatedBy :: "int option"
  ot_timestamp :: int

record delivery =
  dl_orderId :: int
  dl_status :: string
  dl_trackingNumber :: "string option"
  dl_courierCompany :: "string option"
  dl_address :: string
  dl_city :: string
  dl_country :: string
  dl_actualDelivery :: "int option"

text \<open>
  The database: the seven tables the handlers read or write, and the auto-increment
  counters of the two tables whose generated ids the handlers use.
\<close>

record db =
  products :: "product list"
  carts :: "cart list"
  cartItems :: "cart_item list"
  orders :: "order list"
  orderItems :: "order_item list"
  orderTracking :: "order_tracking list"
  deliveries :: "delivery list"
  nextCartId :: int
  nextOrderId :: int

subsection \<open>Requests, errors and responses\<close>

text \<open>
  \<open>req_user\<close> is what the authentication middleware attaches to the request. The clock
  is read by \<^verbatim>\<open>new Date()\<close>: \<open>clk_now\<close> is the instant and \<open>clk_year\<close> what
  \<^verbatim>\<open>getFullYear()\<close> returns for it. A body field that is absent is \<open>None\<close>.
\<close>

record req_user =
  u_id :: int
  u_role :: string

record clock =
  clk_now :: int
  clk_year :: nat

record checkout_body =
  cb_shippingAddress :: "string option"
  cb_shippingPhone :: "string option"
  cb_notes :: "string option"

record status_body =
  sb_status :: "string option"
  sb_description :: "string option"
  sb_trackingNumber :: "string option"
  sb_courierCompany :: "string option"

text \<open>
  \<open>Failure n msg\<close> is \<^verbatim>\<open>res.status(n); throw new Error(msg)\<close>. \<open>Prisma code\<close> is a
  request error of the ORM client with that error code, thrown while the response status
  is still 200. \<open>statusCode\<close> is the status the error handler of
  \<^verbatim>\<open>errorMiddleware.js\<close> answers with.
\<close>

datatype error = Failure nat string | Prisma string

fun statusCode :: "error \<Rightarrow> nat" where
  "statusCode (Failure n msg) = (if n = 200 then 500 else n)"
| "statusCode (Prisma code) =
     (if code = ''P2024'' then 503
      else if code = ''P2021'' then 500
      else if code = ''P2014'' then 400
      else if code = ''P2003'' then 400
      else if code = ''P2025'' then 404
      else if code = ''P2002'' then 400
      else 500)"

datatype response =
    OrderPlaced order "order_item list"
  | OrderCancelled
  | StatusUpdated string

subsection \<open>JavaScript helpers\<close>

text \<open>
  \<open>falsy\<close>: \<^verbatim>\<open>!s\<close> for a value that is a string or absent. \<open>orElse a b\<close>: \<^verbatim>\<open>a || b\<close>
  for such a value.
\<close>

definition falsy :: "string option \<Rightarrow> bool" where
  "falsy s = (case s of None \<Rightarrow> True | Some t \<Rightarrow> t = [])"


definition orNull :: "string option \<Rightarrow> string option" where
  "orNull a = (if falsy a then None else a)"

text \<open>\<^verbatim>\<open>String(n)\<close> for a non-negative integer, and for any integer.\<close>

definition digitChar :: "nat \<Rightarrow> char" where
  "digitChar d = ''0123456789'' ! d"

function showNat :: "nat \<Rightarrow> string" where
  "showNat n = (if n < 10 then [digitChar n] else showNat (n div 10) @ [digitChar (n mod 10)])"
  by pat_completeness auto
termination
  by (relation "measure (\<lambda>n. n)") auto

declare showNat.simps [simp del]

definition showInt :: "int \<Rightarrow> string" where
  "showInt i = (if i < 0 then CHR ''-'' # showNat (nat (- i)) else showNat (nat i))"

text \<open>\<^verbatim>\<open>s.padStart(n, c)\<close> with a one-character pad: never shortens \<open>s\<close>.\<close>

definition padStart :: "nat \<Rightarrow> char \<Rightarrow> string \<Rightarrow> string" where
  "padStart n c s = replicate (n - length s) c @ s"



text \<open>
  \<^verbatim>\<open>new Date(`${year}-01-01`)\<close>: midnight UTC of the first of January of a four-digit
  year, in milliseconds since the epoch.
\<close>

definition leapDaysBefore :: "int \<Rightarrow> int" where
  "leapDaysBefore y = (y - 1) div 4 - (y - 1) div 100 + (y - 1) div 400"

definition startOfYear :: "nat \<Rightarrow> int" where
  "startOfYear year =
     86400000 * (365 * (int year - 1970) + leapDaysBefore (int year) - leapDaysBefore 1970)"

subsection \<open>Table operations of the ORM client\<close>

definition findProduct :: "db \<Rightarrow> int \<Rightarrow> product option" where
  "findProduct d pid = find (\<lambda>p. prod_id p = pid) (products d)"



text \<open>
  \<^verbatim>\<open>prisma.cart.findFirst({ where: { userId, isActive: true } })\<close>, the lookup of both
  \<^verbatim>\<open>createOrder\<close> and \<^verbatim>\<open>getOrCreateCart\<close>.
\<close>

definition findActiveCart :: "db \<Rightarrow> int \<Rightarrow> cart option" where
  "findActiveCart d uid = find (\<lambda>c. cart_userId c = uid \<and> cart_isActive c) (carts d)"

definition itemsOfCart :: "db \<Rightarrow> int \<Rightarrow> cart_item list" where
  "itemsOfCart d cid = filter (\<lambda>i. ci_cartId i = cid) (cartItems d)"


text \<open>
  \<^verbatim>\<open>include: { items: { include: { product: true } } }\<close>: every cart item with the product
  row it references. The relation is required, so a dangling reference (which the foreign
  key \<^verbatim>\<open>cart_items_product_id_fkey\<close> excludes) makes the query fail: \<open>None\<close>.
\<close>

fun includeProduct :: "db \<Rightarrow> cart_item list \<Rightarrow> (cart_item \<times> product) list option" where
  "includeProduct d [] = Some []"
| "includeProduct d (i # rest) =
     (case findProduct d (ci_productId i) of
        None \<Rightarrow> None
      | Some p \<Rightarrow> (case includeProduct d rest of None \<Rightarrow> None | Some ps \<Rightarrow> Some ((i, p) # ps)))"

text \<open>
  \<^verbatim>\<open>tx.product.update({ where: { id }, data: { stock: { increment: n } } })\<close>, and
  \<^verbatim>\<open>decrement\<close> as a negative increment. An update of a row that does not exist fails
  with \<^verbatim>\<open>P2025\<close>.
\<close>

definition incrementStock :: "int \<Rightarrow> int \<Rightarrow> db \<Rightarrow> error + db" where
  "incrementStock pid n d =
     (case findProduct d pid of
        None \<Rightarrow> Inl (Prisma ''P2025'')
      | Some _ \<Rightarrow>
          Inr (d\<lparr>products :=
                 map (\<lambda>p. if prod_id p = pid then p\<lparr>prod_stock := prod_stock p + n\<rparr> else p)
                   (products d)\<rparr>))"

definition orderNumberTaken :: "db \<Rightarrow> string \<Rightarrow> bool" where
  "orderNumberTaken d n = (n \<in> ord_orderNumber ` set (orders d))"


definition createTracking :: "order_tracking \<Rightarrow> db \<Rightarrow> db" where
  "createTracking t d = d\<lparr>orderTracking := orderTracking d @ [t]\<rparr>"

text \<open>
  An interactive transaction: the writes of the body are kept when it returns and
  discarded when it throws.
\<close>

definition transaction :: "(db \<Rightarrow> error + 'a \<times> db) \<Rightarrow> db \<Rightarrow> (error + 'a) \<times> db" where
  "transaction body d =
     (case body d of Inl e \<Rightarrow> (Inl e, d) | Inr (r, d') \<Rightarrow> (Inr r, d'))"

subsection \<open>generateOrderNumber\<close>

definition countOrdersSince :: "int \<Rightarrow> db \<Rightarrow> nat" where
  "countOrdersSince t d = length (filter (\<lambda>r. t \<le> ord_createdAt r) (orders d))"

definition generateOrderNumber :: "nat \<Rightarrow> db \<Rightarrow> string" where
  "generateOrderNumber year d =
     (let count = countOrdersSince (startOfYear year) d
      in ''RA-'' @ showNat year @ ''-'' @ padStart 6 (CHR ''0'') (showNat (count + 1)))"

subsection \<open>createOrder\<close>

text \<open>
  \<^verbatim>\<open>item.product.discountPrice || item.product.price\<close>. Both columns are
  \<^verbatim>\<open>DECIMAL(10,2)\<close>, which the ORM client hands to JavaScript as decimal objects (the
  handlers read them through \<^verbatim>\<open>parseFloat\<close>), and \<^verbatim>\<open>discount_price\<close> is nullable. An
  object is truthy whatever number it holds, so \<^verbatim>\<open>||\<close> takes the right operand exactly
  when the discount price is \<^verbatim>\<open>null\<close>. The same expression gives \<^verbatim>\<open>currentPrice\<close> in
  \<^verbatim>\<open>getCart\<close>.
\<close>

definition unitPrice :: "product \<Rightarrow> money" where
  "unitPrice p = (case prod_discountPrice p of None \<Rightarrow> prod_price p | Some dp \<Rightarrow> dp)"

definition currentPrice :: "product \<Rightarrow> money" where
  "currentPrice p = (case prod_discountPrice p of None \<Rightarrow> prod_price p | Some dp \<Rightarrow> dp)"

text \<open>\<^verbatim>\<open>item.product.images?.[0] || null\<close>\<close>

definition firstImage :: "string list option \<Rightarrow> string option" where
  "firstImage imgs =
     (case imgs of
        None \<Rightarrow> None
      | Some [] \<Rightarrow> None
      | Some (x # _) \<Rightarrow> if x = [] then None else Some x)"

text \<open>
  The loop over \<^verbatim>\<open>cart.items\<close> that validates each line and accumulates \<^verbatim>\<open>subtotal\<close>
  and \<^verbatim>\<open>orderItems\<close>; it stops at the first line that fails a check.
\<close>

fun validateItems ::
  "(cart_item \<times> product) list \<Rightarrow> money \<Rightarrow> order_line list \<Rightarrow> error + money \<times> order_line list"
where
  "validateItems [] subtotal orderLines = Inr (subtotal, orderLines)"
| "validateItems ((item, p) # rest) subtotal orderLines =
     (if \<not> prod_isActive p then
        Inl (Failure 400 (prod_name p @ '' is no longer available''))
      else if prod_stock p < ci_quantity item then
        Inl (Failure 400 (''Insufficient stock for '' @ prod_name p @ ''. Only ''
                           @ showInt (prod_stock p) @ '' available.''))
      else
        let totalPrice = unitPrice p * of_int (ci_quantity item)
        in validateItems rest (subtotal + totalPrice)
             (orderLines @
              [\<lparr>ol_productId = ci_productId item,
                ol_quantity = ci_quantity item,
                ol_unitPrice = unitPrice p,
                ol_totalPrice = totalPrice,
                ol_productName = prod_name p,
                ol_productImage = firstImage (prod_images p),
                ol_customization = ci_customization item\<rparr>]))"

definition shippingCostOf :: "money \<Rightarrow> money" where
  "shippingCostOf subtotal = (if subtotal \<ge> 5000 then 0 else 200)"

text \<open>Step 2 of the transaction: the loop that decrements the stock of every cart line.\<close>

fun decrementStock :: "cart_item list \<Rightarrow> db \<Rightarrow> error + db" where
  "decrementStock [] d = Inr d"
| "decrementStock (item # rest) d =
     (case incrementStock (ci_productId item) (- ci_quantity item) d of
        Inl e \<Rightarrow> Inl e
      | Inr d' \<Rightarrow> decrementStock rest d')"

text \<open>
  Step 1, \<^verbatim>\<open>tx.order.create\<close> with the nested creation of the items: the insert fails
  with \<^verbatim>\<open>P2002\<close> when the order number is already in the unique index. The result is
  the new order with its items.
\<close>

definition createOrderRow ::
  "order \<Rightarrow> order_line list \<Rightarrow> db \<Rightarrow> error + (order \<times> order_item list) \<times> db" where
  "createOrderRow data orderLines d =
     (if orderNumberTaken d (ord_orderNumber data) then Inl (Prisma ''P2002'')
      else
        let order = data\<lparr>ord_id := nextOrderId d\<rparr>;
            rows = map (\<lambda>l. \<lparr>oi_orderId = nextOrderId d, oi_line = l\<rparr>) orderLines
        in Inr ((order, rows),
                d\<lparr>orders := orders d @ [order],
                  orderItems := orderItems d @ rows,
                  nextOrderId := nextOrderId d + 1\<rparr>))"

text \<open>
  Steps 4 and 5: \<^verbatim>\<open>tx.cartItem.deleteMany({ where: { cartId } })\<close> and
  \<^verbatim>\<open>tx.cart.delete({ where: { id } })\<close>. Deleting a cart row also deletes the item rows
  that reference it (\<^verbatim>\<open>ON DELETE CASCADE\<close> of \<^verbatim>\<open>cart_items_cart_id_fkey\<close>).
\<close>

definition deleteCartItems :: "int \<Rightarrow> db \<Rightarrow> db" where
  "deleteCartItems cid d = d\<lparr>cartItems := filter (\<lambda>i. ci_cartId i \<noteq> cid) (cartItems d)\<rparr>"

definition deleteCart :: "int \<Rightarrow> db \<Rightarrow> error + db" where
  "deleteCart cid d =
     (if cid \<in> cart_id ` set (carts d)
      then Inr (d\<lparr>carts := filter (\<lambda>c. cart_id c \<noteq> cid) (carts d),
                  cartItems := filter (\<lambda>i. ci_cartId i \<noteq> cid) (cartItems d)\<rparr>)
      else Inl (Prisma ''P2025''))"

text \<open>The body of the checkout transaction, steps 1 to 5 of the source.\<close>

definition createOrderTx ::
  "order \<Rightarrow> order_line list \<Rightarrow> cart \<Rightarrow> cart_item list \<Rightarrow> int \<Rightarrow> db
     \<Rightarrow> error + (order \<times> order_item list) \<times> db" where
  "createOrderTx data orderLines cart items now d =
     (case createOrderRow data orderLines d of
        Inl e \<Rightarrow> Inl e
      | Inr (created, d1) \<Rightarrow>
          (case decrementStock items d1 of
             Inl e \<Rightarrow> Inl e
           | Inr d2 \<Rightarrow>
               let d3 = createTracking
                          \<lparr>ot_orderId = ord_id (fst created),
                            ot_status = ''Order Placed'',
                            ot_description = ''Your order has been placed successfully'',
                            ot_updatedBy = None,
                            ot_timestamp = now\<rparr> d2;
                   d4 = deleteCartItems (cart_id cart) d3
               in (case deleteCart (cart_id cart) d4 of
                     Inl e \<Rightarrow> Inl e
                   | Inr d5 \<Rightarrow> Inr (created, d5))))"

text \<open>
  The \<^verbatim>\<open>data\<close> of \<^verbatim>\<open>tx.order.create\<close>, with the totals computed after the loop. The
  address and the phone are read after the guard that rejects a request without them.
\<close>

definition newOrder ::
  "clock \<Rightarrow> int \<Rightarrow> checkout_body \<Rightarrow> string \<Rightarrow> money \<Rightarrow> order" where
  "newOrder clk uid body orderNumber subtotal =
     (let shippingCost = shippingCostOf subtotal;
          taxAmount = 0;
          totalAmount = subtotal + shippingCost + taxAmount
      in \<lparr>ord_id = 0,
          ord_orderNumber = orderNumber,
          ord_userId = uid,
          ord_status = ''PENDING'',
          ord_subtotal = subtotal,
          ord_shippingCost = shippingCost,
          ord_taxAmount = taxAmount,
          ord_totalAmount = totalAmount,
          ord_shippingAddress = the (cb_shippingAddress body),
          ord_shippingPhone = the (cb_shippingPhone body),
          ord_notes = orNull (cb_notes body),
          ord_createdAt = clk_now clk,
          ord_confirmedAt = None,
          ord_shippedAt = None,
          ord_deliveredAt = None,
          ord_cancelledAt = None,
          ord_cancelReason = None\<rparr>)"

definition createOrder ::
  "clock \<Rightarrow> req_user \<Rightarrow> checkout_body \<Rightarrow> db \<Rightarrow> (error + response) \<times> db" where
  "createOrder clk user body d =
     (if falsy (cb_shippingAddress body) \<or> falsy (cb_shippingPhone body) then
        (Inl (Failure 400 ''Please provide shipping address and phone number''), d)
      else
        (case findActiveCart d (u_id user) of
           None \<Rightarrow> (Inl (Failure 400 ''Your cart is empty''), d)
         | Some cart \<Rightarrow>
             (case includeProduct d (itemsOfCart d (cart_id cart)) of
                None \<Rightarrow> (Inl (Failure 200 ''Inconsistent query result''), d)
              | Some lines \<Rightarrow>
                  (if lines = [] then (Inl (Failure 400 ''Your cart is empty''), d)
                   else
                     (case validateItems lines 0 [] of
                        Inl e \<Rightarrow> (Inl e, d)
                      | Inr (subtotal, orderLines) \<Rightarrow>
                          (let orderNumber = generateOrderNumber (clk_year clk) d;
                               data = newOrder clk (u_id user) body orderNumber subtotal
                           in (case transaction
                                      (createOrderTx data orderLines cart (map fst lines)
                                         (clk_now clk)) d of
                                 (Inl e, d') \<Rightarrow> (Inl e, d')
                               | (Inr (order, rows), d') \<Rightarrow>
                                   (Inr (OrderPlaced order rows), d'))))))))"

subsection \<open>getOrCreateCart\<close>


subsection \<open>cancelOrder\<close>





subsection \<open>updateOrderStatus\<close>








subsection \<open>Constraints of the schema\<close>



subsection \<open>Closed forms used in the statements\<close>



text \<open>The database with \<open>delta pid\<close> added to the stock of every product \<open>pid\<close>.\<close>

definition adjustAll :: "(int \<Rightarrow> int) \<Rightarrow> db \<Rightarrow> db" where
  "adjustAll delta d =
     d\<lparr>products := map (\<lambda>p. p\<lparr>prod_stock := prod_stock p + delta (prod_id p)\<rparr>) (products d)\<rparr>"

text \<open>The order line that the checkout loop builds from a cart item and its product.\<close>

definition lineOf :: "cart_item \<times> product \<Rightarrow> order_line" where
  "lineOf l =
     \<lparr>ol_productId = ci_productId (fst l),
       ol_quantity = ci_quantity (fst l),
       ol_unitPrice = unitPrice (snd l),
       ol_totalPrice = unitPrice (snd l) * of_int (ci_quantity (fst l)),
       ol_productName = prod_name (snd l),
       ol_productImage = firstImage (prod_images (snd l)),
       ol_customization = ci_customization (fst l)\<rparr>"



subsection \<open>Example data\<close>

text \<open>
  The scenario of the specification: a user whose cart holds two units of product A
  (stock 5, price 100) and one unit of product B (stock 1, discounted to 50), with a
  subtotal below the free-shipping threshold.
\<close>

definition exProductA :: product where
  "exProductA =
     \<lparr>prod_id = 1, prod_name = ''Coaster'', prod_price = 100, prod_discountPrice = None,
       prod_stock = 5, prod_images = Some [''coaster.png''], prod_isActive = True\<rparr>"

definition exProductB :: product where
  "exProductB =
     \<lparr>prod_id = 2, prod_name = ''Tray'', prod_price = 60, prod_discountPrice = Some 50,
       prod_stock = 1, prod_images = None, prod_isActive = True\<rparr>"

definition exCart :: cart where
  "exCart = \<lparr>cart_id = 7, cart_userId = 3, cart_isActive = True\<rparr>"

definition exItemA :: cart_item where
  "exItemA =
     \<lparr>ci_cartId = 7, ci_productId = 1, ci_quantity = 2, ci_customization = None,
       ci_priceAtTime = 100\<rparr>"

definition exItemB :: cart_item where
  "exItemB =
     \<lparr>ci_cartId = 7, ci_productId = 2, ci_quantity = 1, ci_customization = None,
       ci_priceAtTime = 50\<rparr>"

definition exDb :: db where
  "exDb =
     \<lparr>products = [exProductA, exProductB],
       carts = [exCart],
       cartItems = [exItemA, exItemB],
       orders = [],
       orderItems = [],
       orderTracking = [],
       deliveries = [],
       nextCartId = 8,
       nextOrderId = 1\<rparr>"

definition exUser :: req_user where
  "exUser = \<lparr>u_id = 3, u_role = ''USER''\<rparr>"

definition exAdmin :: req_user where
  "exAdmin = \<lparr>u_id = 1, u_role = ''ADMIN''\<rparr>"

definition exClock :: clock where
  "exClock = \<lparr>clk_now = 1780000000000, clk_year = 2026\<rparr>"

definition exBody :: checkout_body where
  "exBody = \<lparr>cb_shippingAddress = Some ''X'', cb_shippingPhone = Some ''Y'', cb_notes = None\<rparr>"

text \<open>
  An order of another user, the second of the year 2026, in a database from which the
  first order of that year has been deleted (deleting an account deletes its orders).
\<close>

definition exOtherOrder :: order where
  "exOtherOrder =
     \<lparr>ord_id = 2, ord_orderNumber = ''RA-2026-000002'', ord_userId = 5,
       ord_status = ''PENDING'', ord_subtotal = 5000, ord_shippingCost = 0, ord_taxAmount = 0,
       ord_totalAmount = 5000, ord_shippingAddress = ''Z'', ord_shippingPhone = ''W'',
       ord_notes = None, ord_createdAt = 1770000000000, ord_confirmedAt = None,
       ord_shippedAt = None, ord_deliveredAt = None, ord_cancelledAt = None,
       ord_cancelReason = None\<rparr>"

definition collisionDb :: db where
  "collisionDb = exDb\<lparr>orders := [exOtherOrder], nextOrderId := 3\<rparr>"

text \<open>The example database with another discount price for product B.\<close>

definition pricedDb :: "money \<Rightarrow> db" where
  "pricedDb b = exDb\<lparr>products := [exProductA, exProductB\<lparr>prod_discountPrice := Some b\<rparr>]\<rparr>"

text \<open>The example database with product B out of stock, and with the cart emptied.\<close>

definition shortDb :: db where
  "shortDb = exDb\<lparr>products := [exProductA, exProductB\<lparr>prod_stock := 0\<rparr>]\<rparr>"

definition emptyCartDb :: db where
  "emptyCartDb = exDb\<lparr>cartItems := []\<rparr>"




text \<open>
  The example database after the checkout of the scenario: the order of user 3, in
  status PENDING, with its two items, and the stocks 3 and 0. \<open>adminOrderedDb\<close> is the
  same with the order placed by the administrator (user 1).
\<close>

definition exOrder :: order where
  "exOrder =
     \<lparr>ord_id = 1, ord_orderNumber = ''RA-2026-000001'', ord_userId = 3,
       ord_status = ''PENDING'', ord_subtotal = 250, ord_shippingCost = 200, ord_taxAmount = 0,
       ord_totalAmount = 450, ord_shippingAddress = ''X'', ord_shippingPhone = ''Y'',
       ord_notes = None, ord_createdAt = 1780000000000, ord_confirmedAt = None,
       ord_shippedAt = None, ord_deliveredAt = None, ord_cancelledAt = None,
       ord_cancelReason = None\<rparr>"

definition exOrderItems :: "order_item list" where
  "exOrderItems =
     [\<lparr>oi_orderId = 1,
        oi_line = \<lparr>ol_productId = 1, ol_quantity = 2, ol_unitPrice = 100, ol_totalPrice = 200,
                    ol_productName = ''Coaster'', ol_productImage = Some ''coaster.png'',
                    ol_customization = None\<rparr>\<rparr>,
      \<lparr>oi_orderId = 1,
        oi_line = \<lparr>ol_productId = 2, ol_quantity = 1, ol_unitPrice = 50, ol_totalPrice = 50,
                    ol_productName = ''Tray'', ol_productImage = None,
                    ol_customization = None\<rparr>\<rparr>]"

definition orderedDb :: db where
  "orderedDb =
     \<lparr>products = [exProductA\<lparr>prod_stock := 3\<rparr>, exProductB\<lparr>prod_stock := 0\<rparr>],
       carts = [],
       cartItems = [],
       orders = [exOrder],
       orderItems = exOrderItems,
       orderTracking =
         [\<lparr>ot_orderId = 1, ot_status = ''Order Placed'',
            ot_description = ''Your order has been placed successfully'',
            ot_updatedBy = None, ot_timestamp = 1780000000000\<rparr>],
       deliveries = [],
       nextCartId = 8,
       nextOrderId = 2\<rparr>"

definition adminOrderedDb :: db where
  "adminOrderedDb = orderedDb\<lparr>orders := [exOrder\<lparr>ord_userId := 1\<rparr>]\<rparr>"

definition exLater :: clock where
  "exLater = \<lparr>clk_now = 1780000600000, clk_year = 2026\<rparr>"

text \<open>The same database after the owner has cancelled the order.\<close>

definition cancelledDb :: db where
  "cancelledDb =
     orderedDb\<lparr>products := [exProductA\<lparr>prod_stock := 5\<rparr>, exProductB\<lparr>prod_stock := 1\<rparr>],
       orders :=
         [exOrder\<lparr>ord_status := ''CANCELLED'', ord_cancelledAt := Some 1780000600000,
            ord_cancelReason := Some ''Cancelled by customer''\<rparr>],
       orderTracking := orderTracking orderedDb @
         [\<lparr>ot_orderId = 1, ot_status = ''Cancelled'',
            ot_description = ''Order cancelled by customer'',
            ot_updatedBy = Some 3, ot_timestamp = 1780000600000\<rparr>]\<rparr>"

text \<open>The same database with the order delivered.\<close>

definition deliveredDb :: db where
  "deliveredDb =
     orderedDb\<lparr>orders :=
       [exOrder\<lparr>ord_status := ''DELIVERED'', ord_deliveredAt := Some 1780000300000\<rparr>]\<rparr>"

text \<open>
  A second order, of another user, shipped with a tracking number, beside the order of
  the scenario; and the body of a status update that gives only a status.
\<close>

definition exShippedOrder :: order where
  "exShippedOrder =
     exOrder\<lparr>ord_id := 2, ord_orderNumber := ''RA-2026-000002'', ord_userId := 5,
       ord_status := ''SHIPPED'', ord_createdAt := 1780000100000,
       ord_shippedAt := Some 1780000200000\<rparr>"

definition exDelivery :: delivery where
  "exDelivery =
     \<lparr>dl_orderId = 2, dl_status = ''SHIPPED'', dl_trackingNumber = Some ''TCS-1001'',
       dl_courierCompany = Some ''TCS'', dl_address = ''X'', dl_city = [],
       dl_country = ''Pakistan'', dl_actualDelivery = None\<rparr>"

definition trackedDb :: db where
  "trackedDb =
     orderedDb\<lparr>orders := [exOrder, exShippedOrder], deliveries := [exDelivery],
       nextOrderId := 3\<rparr>"

definition exStatus :: "string \<Rightarrow> status_body" where
  "exStatus s =
     \<lparr>sb_status = Some s, sb_description = None, sb_trackingNumber = None,
       sb_courierCompany = None\<rparr>"

section \<open>Properties\<close>

subsection \<open>Decimal strings\<close>






lemma replicate_numeral: "replicate (numeral k) x = x # replicate (pred_numeral k) x"
  by (simp add: numeral_eq_Suc)

subsection \<open>The stock loops\<close>

lemma find_map_key:
  assumes "\<And>x. key (f x) = key x"
  shows "find (\<lambda>x. key x = k) (map f xs) = map_option f (find (\<lambda>x. key x = k) xs)"
  by (induction xs) (simp_all add: assms)

lemma find_key: "find (\<lambda>x. key x = k) xs = Some y \<Longrightarrow> key y = k \<and> y \<in> set xs"
  by (induction xs) (auto split: if_splits)

lemma findProduct_adjustAll:
  "findProduct (adjustAll delta d) q =
     map_option (\<lambda>p. p\<lparr>prod_stock := prod_stock p + delta q\<rparr>) (findProduct d q)"
proof -
  have "findProduct (adjustAll delta d) q =
      map_option (\<lambda>p. p\<lparr>prod_stock := prod_stock p + delta (prod_id p)\<rparr>) (findProduct d q)"
    unfolding findProduct_def adjustAll_def
    by (simp add: find_map_key [where key = prod_id])
  also have "\<dots> = map_option (\<lambda>p. p\<lparr>prod_stock := prod_stock p + delta q\<rparr>) (findProduct d q)"
  proof (cases "findProduct d q")
    case None
    then show ?thesis by simp
  next
    case (Some p)
    then have "prod_id p = q"
      unfolding findProduct_def by (auto dest: find_key [where key = prod_id])
    with Some show ?thesis by simp
  qed
  finally show ?thesis .
qed


lemma adjustAll_frame [simp]:
  "carts (adjustAll delta d) = carts d"
  "cartItems (adjustAll delta d) = cartItems d"
  "orders (adjustAll delta d) = orders d"
  "orderItems (adjustAll delta d) = orderItems d"
  "orderTracking (adjustAll delta d) = orderTracking d"
  "deliveries (adjustAll delta d) = deliveries d"
  "nextCartId (adjustAll delta d) = nextCartId d"
  "nextOrderId (adjustAll delta d) = nextOrderId d"
  by (simp_all add: adjustAll_def)



lemma incrementStock_missing:
  "findProduct d pid = None \<Longrightarrow> incrementStock pid n d = Inl (Prisma ''P2025'')"
  by (simp add: incrementStock_def)

lemma findProduct_adjustAll_None [simp]:
  "findProduct (adjustAll delta d) q = None \<longleftrightarrow> findProduct d q = None"
  by (simp add: findProduct_adjustAll)



lemma includeProduct_Some:
  "includeProduct d items = Some lines \<Longrightarrow>
     map fst lines = items \<and> list_all (\<lambda>l. findProduct d (ci_productId (fst l)) = Some (snd l)) lines"
  by (induction items arbitrary: lines) (auto split: option.splits)

lemma includeProduct_total:
  "list_all (\<lambda>i. findProduct d (ci_productId i) \<noteq> None) items \<Longrightarrow>
     \<exists>lines. includeProduct d items = Some lines"
  by (induction items) auto

lemma validateItems_ok:
  assumes "list_all (\<lambda>l. prod_isActive (snd l) \<and> ci_quantity (fst l) \<le> prod_stock (snd l)) lines"
  shows "validateItems lines subtotal acc =
     Inr (subtotal + sum_list (map (\<lambda>l. ol_totalPrice (lineOf l)) lines), acc @ map lineOf lines)"
  using assms
proof (induction lines arbitrary: subtotal acc)
  case Nil
  then show ?case by simp
next
  case (Cons l rest)
  obtain item p where l: "l = (item, p)" by (cases l)
  from Cons.prems l have "prod_isActive p" "\<not> prod_stock p < ci_quantity item"
    and rest: "list_all (\<lambda>l. prod_isActive (snd l) \<and> ci_quantity (fst l) \<le> prod_stock (snd l)) rest"
    by auto
  then show ?case
    using Cons.IH [OF rest] l by (simp add: lineOf_def Let_def add.assoc)
qed

subsection \<open>The checkout transaction\<close>

lemma validateItems_Inr:
  "validateItems lines subtotal acc = Inr r \<Longrightarrow>
     list_all (\<lambda>l. prod_isActive (snd l) \<and> ci_quantity (fst l) \<le> prod_stock (snd l)) lines"
proof (induction lines arbitrary: subtotal acc)
  case Nil
  then show ?case by simp
next
  case (Cons l rest)
  obtain item p where l: "l = (item, p)" by (cases l)
  from Cons.prems l have ok: "prod_isActive p" "ci_quantity item \<le> prod_stock p"
    by (auto split: if_splits)
  with Cons.prems l have "\<exists>s a. validateItems rest s a = Inr r"
    by (auto simp add: Let_def)
  then have "list_all (\<lambda>l. prod_isActive (snd l) \<and> ci_quantity (fst l) \<le> prod_stock (snd l)) rest"
    using Cons.IH by blast
  with ok l show ?case by simp
qed

lemma findProduct_frame:
  "products d' = products d \<Longrightarrow> findProduct d' q = findProduct d q"
  by (simp add: findProduct_def)





text \<open>
  The equations that evaluate a handler on concrete data: the definitions, with the
  local bindings substituted.
\<close>

lemmas ex_defs = exProductA_def exProductB_def exCart_def exItemA_def exItemB_def exDb_def
  exUser_def exAdmin_def exClock_def exBody_def exOtherOrder_def collisionDb_def pricedDb_def
  shortDb_def emptyCartDb_def exOrder_def exOrderItems_def orderedDb_def adminOrderedDb_def
  exLater_def cancelledDb_def deliveredDb_def exShippedOrder_def exDelivery_def trackedDb_def
  exStatus_def

lemmas validateItems_eval = validateItems.simps(2) [unfolded Let_def]

lemmas run_defs = createOrder_def [unfolded Let_def] falsy_def findActiveCart_def
  itemsOfCart_def findProduct_def unitPrice_def firstImage_def shippingCostOf_def
  generateOrderNumber_def [unfolded Let_def] countOrdersSince_def startOfYear_def
  leapDaysBefore_def padStart_def showNat.simps digitChar_def showInt_def
  newOrder_def [unfolded Let_def] orNull_def transaction_def
  createOrderTx_def [unfolded Let_def] createOrderRow_def [unfolded Let_def]
  orderNumberTaken_def incrementStock_def createTracking_def deleteCartItems_def deleteCart_def
  validateItems_eval replicate_numeral








lemma find_append:
  "find P (xs @ ys) = (case find P xs of None \<Rightarrow> find P ys | Some x \<Rightarrow> Some x)"
  by (induction xs) simp_all

lemma validateItems_result:
  assumes "validateItems lines subtotal acc = Inr r"
  shows "r = (subtotal + sum_list (map (\<lambda>l. ol_totalPrice (lineOf l)) lines), acc @ map lineOf lines)"
  using validateItems_ok [OF validateItems_Inr [OF assms], of subtotal acc] assms by simp

lemma createOrderTx_result:
  assumes "createOrderTx data orderLines cart items now d = Inr ((order, rows), d')"
  shows "order = data\<lparr>ord_id := nextOrderId d\<rparr>
     \<and> rows = map (\<lambda>l. \<lparr>oi_orderId = nextOrderId d, oi_line = l\<rparr>) orderLines"
  using assms
  by (auto simp add: createOrderTx_def createOrderRow_def Let_def
      split: if_splits sum.splits prod.splits)

lemma createOrder_placed:
  assumes "createOrder clk user body d = (Inr (OrderPlaced order rows), d')"
  obtains cart lines where
    "findActiveCart d (u_id user) = Some cart"
    "includeProduct d (itemsOfCart d (cart_id cart)) = Some lines"
    "lines \<noteq> []"
    "list_all (\<lambda>l. prod_isActive (snd l) \<and> ci_quantity (fst l) \<le> prod_stock (snd l)) lines"
    "order = (newOrder clk (u_id user) body (generateOrderNumber (clk_year clk) d)
                (sum_list (map (\<lambda>l. ol_totalPrice (lineOf l)) lines)))\<lparr>ord_id := nextOrderId d\<rparr>"
    "rows = map (\<lambda>l. \<lparr>oi_orderId = nextOrderId d, oi_line = lineOf l\<rparr>) lines"
proof -
  from assms obtain cart where cart: "findActiveCart d (u_id user) = Some cart"
    by (auto simp add: createOrder_def split: if_splits option.splits)
  with assms obtain lines where lines: "includeProduct d (itemsOfCart d (cart_id cart)) = Some lines"
    by (auto simp add: createOrder_def split: if_splits option.splits)
  with assms cart have nonempty: "lines \<noteq> []"
    by (auto simp add: createOrder_def split: if_splits)
  with assms cart lines obtain r where r: "validateItems lines 0 [] = Inr r"
    by (auto simp add: createOrder_def split: if_splits sum.splits)
  from validateItems_Inr [OF r]
  have ok: "list_all (\<lambda>l. prod_isActive (snd l) \<and> ci_quantity (fst l) \<le> prod_stock (snd l)) lines" .
  from validateItems_result [OF r]
  have r_eq: "r = (sum_list (map (\<lambda>l. ol_totalPrice (lineOf l)) lines), map lineOf lines)"
    by simp
  let ?data = "newOrder clk (u_id user) body (generateOrderNumber (clk_year clk) d)
                (sum_list (map (\<lambda>l. ol_totalPrice (lineOf l)) lines))"
  from assms cart lines nonempty r r_eq
  have "createOrderTx ?data (map lineOf lines) cart (map fst lines) (clk_now clk) d
      = Inr ((order, rows), d')"
    by (auto simp add: createOrder_def transaction_def Let_def split: if_splits sum.splits prod.splits)
  from createOrderTx_result [OF this]
  have "order = ?data\<lparr>ord_id := nextOrderId d\<rparr>"
    "rows = map (\<lambda>l. \<lparr>oi_orderId = nextOrderId d, oi_line = lineOf l\<rparr>) lines"
    by (simp_all add: comp_def)
  with cart lines nonempty ok show thesis by (rule that)
qed


lemma createOrder_error_frame:
  "fst (createOrder clk user body d) = Inl e \<Longrightarrow> snd (createOrder clk user body d) = d"
  by (auto simp add: createOrder_def transaction_def Let_def
      split: if_splits option.splits sum.splits prod.splits)

subsection \<open>The order number\<close>





subsection \<open>The cancellation transaction\<close>







subsection \<open>Status updates\<close>











subsection \<open>C1: a checkout that passes every guard\<close>




subsection \<open>C2: the amounts of a placed order\<close>



subsection \<open>C3: checkout with no cart or an empty cart\<close>

text \<open>
  Claim C3. For every checkout attempt by a user who has no active cart, or whose active
  cart has no items: \<open>createOrder\<close> fails with a 400 error and returns the database as it
  was, so that no order row and no order item is created and no stock is changed. The
  guards run in the order of the source: the error is \<open>Your cart is empty\<close> for every
  request that carries a shipping address and a phone, and the 400 error of the input
  validation for a request that lacks one of them.
\<close>

theorem createOrder_empty_cart:
  assumes "findActiveCart d (u_id user) = None
         \<or> (\<exists>cart. findActiveCart d (u_id user) = Some cart \<and> itemsOfCart d (cart_id cart) = [])"
  shows "(\<exists>msg. fst (createOrder clk user body d) = Inl (Failure 400 msg))
       \<and> (\<not> falsy (cb_shippingAddress body) \<and> \<not> falsy (cb_shippingPhone body)
            \<longrightarrow> fst (createOrder clk user body d) = Inl (Failure 400 ''Your cart is empty''))
       \<and> snd (createOrder clk user body d) = d
       \<and> orders (snd (createOrder clk user body d)) = orders d
       \<and> orderItems (snd (createOrder clk user body d)) = orderItems d
       \<and> products (snd (createOrder clk user body d)) = products d"
proof -
  have res: "createOrder clk user body d =
      (if falsy (cb_shippingAddress body) \<or> falsy (cb_shippingPhone body)
       then (Inl (Failure 400 ''Please provide shipping address and phone number''), d)
       else (Inl (Failure 400 ''Your cart is empty''), d))"
    using assms by (auto simp add: createOrder_def)
  then show ?thesis by simp
qed

text \<open>A user without a cart and a user with an emptied cart, as witnesses.\<close>

theorem createOrder_empty_cart_witness:
  "findActiveCart exDb 9 = None
   \<and> createOrder exClock \<lparr>u_id = 9, u_role = ''USER''\<rparr> exBody exDb
        = (Inl (Failure 400 ''Your cart is empty''), exDb)
   \<and> findActiveCart emptyCartDb (u_id exUser) = Some exCart
   \<and> itemsOfCart emptyCartDb (cart_id exCart) = []
   \<and> createOrder exClock exUser exBody emptyCartDb
        = (Inl (Failure 400 ''Your cart is empty''), emptyCartDb)
   \<and> statusCode (Failure 400 ''Your cart is empty'') = 400"
proof -
  let ?guest = "\<lparr>u_id = 9, u_role = ''USER''\<rparr>"
  have h1: "findActiveCart exDb (u_id ?guest) = None"
    by (simp add: ex_defs findActiveCart_def)
  have h2: "findActiveCart emptyCartDb (u_id exUser) = Some exCart"
    "itemsOfCart emptyCartDb (cart_id exCart) = []"
    by (simp_all add: ex_defs findActiveCart_def itemsOfCart_def)
  have body: "\<not> falsy (cb_shippingAddress exBody) \<and> \<not> falsy (cb_shippingPhone exBody)"
    by (simp add: ex_defs falsy_def)
  from h1 have "findActiveCart exDb (u_id ?guest) = None
         \<or> (\<exists>cart. findActiveCart exDb (u_id ?guest) = Some cart \<and> itemsOfCart exDb (cart_id cart) = [])"
    by (rule disjI1)
  from createOrder_empty_cart [OF this, of exClock exBody] body
  have r1: "createOrder exClock ?guest exBody exDb = (Inl (Failure 400 ''Your cart is empty''), exDb)"
    by (simp add: prod_eq_iff)
  from h2 have "findActiveCart emptyCartDb (u_id exUser) = None
         \<or> (\<exists>cart. findActiveCart emptyCartDb (u_id exUser) = Some cart
               \<and> itemsOfCart emptyCartDb (cart_id cart) = [])"
    by simp
  from createOrder_empty_cart [OF this, of exClock exBody] body
  have r2: "createOrder exClock exUser exBody emptyCartDb
        = (Inl (Failure 400 ''Your cart is empty''), emptyCartDb)"
    by (simp add: prod_eq_iff)
  from h1 h2 r1 r2 show ?thesis by simp
qed

subsection \<open>C4: checkout with a line beyond the stock\<close>



subsection \<open>C5: cancellation by the owner\<close>




subsection \<open>C6: the guards of a cancellation\<close>



subsection \<open>C7: the order number\<close>




subsection \<open>C8: status updates by an administrator\<close>




subsection \<open>C9: repeated cancellation by an administrator\<close>



subsection \<open>C10: which price a line is charged\<close>

text \<open>
  Claim C10, as amended. Every line of a placed order references a product of the
  database the request ran on, and its unit price is the discount price of that product
  whenever the product has one, whatever its value, zero included; it is the list price
  exactly when the discount price is null. The preference \<^verbatim>\<open>discountPrice || price\<close> is
  a truthiness check on a decimal object or null, and an object is truthy. The same rule
  gives the current price that the cart shows.
\<close>

theorem unitPrice_discount:
  assumes "createOrder clk user body d = (Inr (OrderPlaced order rows), d')"
  shows "\<forall>r \<in> set rows. \<exists>p.
           findProduct d (ol_productId (oi_line r)) = Some p
         \<and> ol_unitPrice (oi_line r) = unitPrice p
         \<and> (\<forall>dp. prod_discountPrice p = Some dp \<longrightarrow> unitPrice p = dp \<and> currentPrice p = dp)
         \<and> (prod_discountPrice p = None
              \<longrightarrow> unitPrice p = prod_price p \<and> currentPrice p = prod_price p)"
proof
  fix r
  assume r: "r \<in> set rows"
  from assms obtain cart lines where
    cart: "findActiveCart d (u_id user) = Some cart"
    and lines: "includeProduct d (itemsOfCart d (cart_id cart)) = Some lines"
    and nonempty: "lines \<noteq> []"
    and ok: "list_all (\<lambda>l. prod_isActive (snd l) \<and> ci_quantity (fst l) \<le> prod_stock (snd l)) lines"
    and order: "order = (newOrder clk (u_id user) body (generateOrderNumber (clk_year clk) d)
                (sum_list (map (\<lambda>l. ol_totalPrice (lineOf l)) lines)))\<lparr>ord_id := nextOrderId d\<rparr>"
    and rows: "rows = map (\<lambda>l. \<lparr>oi_orderId = nextOrderId d, oi_line = lineOf l\<rparr>) lines"
    by (rule createOrder_placed)
  from r rows obtain l where l: "l \<in> set lines"
    and r_eq: "r = \<lparr>oi_orderId = nextOrderId d, oi_line = lineOf l\<rparr>"
    by auto
  from l includeProduct_Some [OF lines]
  have "findProduct d (ci_productId (fst l)) = Some (snd l)"
    by (simp add: list_all_iff)
  with r_eq show "\<exists>p.
           findProduct d (ol_productId (oi_line r)) = Some p
         \<and> ol_unitPrice (oi_line r) = unitPrice p
         \<and> (\<forall>dp. prod_discountPrice p = Some dp \<longrightarrow> unitPrice p = dp \<and> currentPrice p = dp)
         \<and> (prod_discountPrice p = None
              \<longrightarrow> unitPrice p = prod_price p \<and> currentPrice p = prod_price p)"
    by (simp add: lineOf_def unitPrice_def currentPrice_def)
qed

text \<open>
  The example checkout as a witness: product A has no discount price and is charged its
  list price, product B is charged its discount price.
\<close>

theorem unitPrice_discount_witness:
  "\<exists>order rows d'.
       createOrder exClock exUser exBody exDb = (Inr (OrderPlaced order rows), d')
     \<and> map (\<lambda>r. ol_productId (oi_line r)) rows = [1, 2]
     \<and> findProduct exDb 1 = Some exProductA \<and> prod_discountPrice exProductA = None
     \<and> findProduct exDb 2 = Some exProductB \<and> prod_discountPrice exProductB = Some 50
     \<and> map (\<lambda>r. ol_unitPrice (oi_line r)) rows = [prod_price exProductA, 50]"
  (is ?W)
proof -
  have e: "\<exists>order rows d'. createOrder exClock exUser exBody exDb = (Inr (OrderPlaced order rows), d')
      \<and> map (\<lambda>r. ol_productId (oi_line r)) rows = [1, 2] \<and> length rows = 2"
    by (simp add: ex_defs run_defs del: validateItems.simps(2))
  have found: "findProduct exDb 1 = Some exProductA" "prod_discountPrice exProductA = None"
    "findProduct exDb 2 = Some exProductB" "prod_discountPrice exProductB = Some 50"
    by (simp_all add: ex_defs findProduct_def)
  have s: ?W
    if run: "createOrder exClock exUser exBody exDb = (Inr (OrderPlaced order rows), d')"
      and ids: "map (\<lambda>r. ol_productId (oi_line r)) rows = [1, 2]"
      and len: "length rows = 2"
    for order rows d'
  proof -
    from len obtain a b where rows: "rows = [a, b]"
      by (cases rows; cases "tl rows") auto
    with ids have ab: "ol_productId (oi_line a) = 1" "ol_productId (oi_line b) = 2"
      by simp_all
    from unitPrice_discount [OF run] rows ab found
    have "ol_unitPrice (oi_line a) = prod_price exProductA" "ol_unitPrice (oi_line b) = 50"
      by auto
    with rows have prices: "map (\<lambda>r. ol_unitPrice (oi_line r)) rows = [prod_price exProductA, 50]"
      by simp
    show ?thesis
      by (intro exI [of _ order] exI [of _ rows] exI [of _ d'] conjI) (rule run ids found prices)+
  qed
  show ?thesis using e by (elim exE conjE) (rule s)
qed

text \<open>
  A discount price of zero is not treated as unset: with product B (list price 60)
  discounted to 0, its line is charged 0 and the subtotal is the 200 of the other line.
\<close>

theorem unitPrice_zero_discount:
  "\<exists>order rows d'.
       createOrder exClock exUser exBody (pricedDb 0) = (Inr (OrderPlaced order rows), d')
     \<and> findProduct (pricedDb 0) 2 = Some (exProductB\<lparr>prod_discountPrice := Some 0\<rparr>)
     \<and> prod_price (exProductB\<lparr>prod_discountPrice := Some 0\<rparr>) = 60
     \<and> map (\<lambda>r. (ol_productId (oi_line r), ol_unitPrice (oi_line r))) rows = [(1, 100), (2, 0)]
     \<and> ord_subtotal order = 200
     \<and> currentPrice (exProductB\<lparr>prod_discountPrice := Some 0\<rparr>) = 0"
  by (simp add: ex_defs run_defs currentPrice_def del: validateItems.simps(2))

end
